theory Spec2Isabelle
  imports Main
begin

section \<open>Python strings\<close>

text \<open>
  A Python \<open>str\<close> is a sequence of Unicode code points and \<open>len\<close> counts code points,
  so a string is a list of code points here and \<open>length\<close> is \<open>len\<close>. ASCII literals are
  written through \<open>u\<close>; the non-ASCII glyphs of the message template are given by their
  code points.
\<close>

type_synonym ustr = "nat list"

definition u :: "string \<Rightarrow> ustr" where
  "u s = map of_char s"

text \<open>
  \<open>str.isspace\<close> for one code point: the white space \<open>str.strip()\<close> and \<open>str.split()\<close>
  (both without argument) work with. The code points are those of the interpreter's
  table: U+0009..U+000D, U+001C..U+0020, U+0085, U+00A0, U+1680, U+2000..U+200A, U+2028,
  U+2029, U+202F, U+205F, U+3000.
\<close>

definition isspace :: "nat \<Rightarrow> bool" where
  "isspace c \<longleftrightarrow>
     (9 \<le> c \<and> c \<le> 13) \<or> (28 \<le> c \<and> c \<le> 32) \<or> c = 133 \<or> c = 160 \<or> c = 5760 \<or>
     (8192 \<le> c \<and> c \<le> 8202) \<or> c = 8232 \<or> c = 8233 \<or> c = 8239 \<or> c = 8287 \<or> c = 12288"

definition lstrip :: "ustr \<Rightarrow> ustr" where
  "lstrip s = dropWhile isspace s"

definition rstrip :: "ustr \<Rightarrow> ustr" where
  "rstrip s = rev (dropWhile isspace (rev s))"

definition strip :: "ustr \<Rightarrow> ustr" where
  "strip s = rstrip (lstrip s)"

text \<open>
  \<open>str.split()\<close> without argument: the maximal runs of characters that are not white
  space, in order. \<open>cur\<close> is the run being read.
\<close>

fun split_acc :: "ustr \<Rightarrow> ustr \<Rightarrow> ustr list" where
  "split_acc cur [] = (if cur = [] then [] else [cur])"
| "split_acc cur (c # cs) =
     (if isspace c then (if cur = [] then split_acc [] cs else cur # split_acc [] cs)
      else split_acc (cur @ [c]) cs)"

definition str_split :: "ustr \<Rightarrow> ustr list" where
  "str_split s = split_acc [] s"

text \<open>\<open>sep.join(xs)\<close>.\<close>

fun str_join :: "ustr \<Rightarrow> ustr list \<Rightarrow> ustr" where
  "str_join sep [] = []"
| "str_join sep [x] = x"
| "str_join sep (x # y # ys) = x @ sep @ str_join sep (y # ys)"

text \<open>
  \<open>str.expandtabs(8)\<close>: a tab becomes the spaces up to the next multiple of 8 of the
  column, which a line feed or a carriage return resets.
\<close>

fun expandtabs_from :: "nat \<Rightarrow> ustr \<Rightarrow> ustr" where
  "expandtabs_from col [] = []"
| "expandtabs_from col (c # cs) =
     (if c = 9 then replicate (8 - col mod 8) 32 @ expandtabs_from (col + (8 - col mod 8)) cs
      else if c = 10 \<or> c = 13 then c # expandtabs_from 0 cs
      else c # expandtabs_from (Suc col) cs)"

definition expandtabs :: "ustr \<Rightarrow> ustr" where
  "expandtabs s = expandtabs_from 0 s"

text \<open>
  \<open>s.rfind('-', 0, e)\<close>: the highest index below \<open>e\<close> that holds the character, or
  \<open>-1\<close>.
\<close>

definition rfind :: "nat \<Rightarrow> ustr \<Rightarrow> nat \<Rightarrow> int" where
  "rfind c s e =
     (case filter (\<lambda>i. s ! i = c) (rev [0..<min e (length s)]) of
        [] \<Rightarrow> - 1
      | i # _ \<Rightarrow> int i)"

section \<open>Exceptions\<close>

datatype exn =
    FileNotFoundError
  | ValueError
  | AttributeError
  | TypeError
  | OSError
  | HTTPError
  | ConnectionError
  | JSONDecodeError
  | UnicodeEncodeError

section \<open>The library's \<open>textwrap.shorten\<close>\<close>

text \<open>
  \<open>compose_post\<close> calls \<open>textwrap.shorten(text, width=w, placeholder="\<dots>")\<close>, which is
  \<open>TextWrapper(width=w, max_lines=1, placeholder="\<dots>").fill(' '.join(text.strip().split()))\<close>.
  The model follows the methods of \<open>TextWrapper\<close> (CPython 3.11) at the attribute values
  this call fixes: \<open>initial_indent = subsequent_indent = ""\<close>, \<open>expand_tabs\<close>,
  \<open>replace_whitespace\<close>, \<open>drop_whitespace\<close>, \<open>break_long_words\<close> and
  \<open>break_on_hyphens\<close> true, \<open>fix_sentence_endings\<close> false, \<open>tabsize = 8\<close>,
  \<open>max_lines = 1\<close>.

  The regular expression \<open>wordsep_re\<close> uses the classes \<open>\w\<close> and \<open>\d\<close> of the
  regular expression engine, which are tables of the interpreter over all of Unicode. They
  are a parameter of the model.
\<close>

record unicode_db =
  re_w :: "nat \<Rightarrow> bool"
  re_d :: "nat \<Rightarrow> bool"

definition ellipsis :: ustr where
  "ellipsis = [8230]"

text \<open>\<open>textwrap._whitespace\<close>, the six ASCII white space characters.\<close>

definition tw_whitespace :: "nat \<Rightarrow> bool" where
  "tw_whitespace c \<longleftrightarrow> c = 9 \<or> c = 10 \<or> c = 11 \<or> c = 12 \<or> c = 13 \<or> c = 32"

definition munge_whitespace :: "ustr \<Rightarrow> ustr" where
  "munge_whitespace text = map (\<lambda>c. if tw_whitespace c then 32 else c) (expandtabs text)"

subsection \<open>Splitting into chunks\<close>

text \<open>
  \<open>word_punct\<close> is \<open>[\w!"'&.,?]\<close> and \<open>letter\<close> is \<open>[^\d\W]\<close>.
\<close>

definition word_punct :: "unicode_db \<Rightarrow> nat \<Rightarrow> bool" where
  "word_punct U c \<longleftrightarrow>
     re_w U c \<or> c = 33 \<or> c = 34 \<or> c = 39 \<or> c = 38 \<or> c = 46 \<or> c = 44 \<or> c = 63"

definition letter :: "unicode_db \<Rightarrow> nat \<Rightarrow> bool" where
  "letter U c \<longleftrightarrow> re_w U c \<and> \<not> re_d U c"

text \<open>
  The look-ahead \<open>(?=-{2,}\w)\<close> at the text \<open>rest\<close>. A hyphen is not a word character,
  so only the whole run of hyphens can be followed by one.
\<close>

definition emdash_ahead :: "unicode_db \<Rightarrow> ustr \<Rightarrow> bool" where
  "emdash_ahead U rest \<longleftrightarrow>
     (let m = length (takeWhile (\<lambda>c. c = 45) rest)
      in 2 \<le> m \<and> (case drop m rest of [] \<Rightarrow> False | c # _ \<Rightarrow> re_w U c))"

text \<open>
  The look-behinds \<open>(?<=letter{2}-) | (?<=letter-letter-)\<close>; \<open>behind\<close> is the text
  before the position, last character first.
\<close>

definition hyphen_behind :: "unicode_db \<Rightarrow> ustr \<Rightarrow> bool" where
  "hyphen_behind U behind \<longleftrightarrow>
     (case behind of
        h # a # b # r \<Rightarrow>
          h = 45 \<and> letter U a \<and>
          (letter U b \<or> (b = 45 \<and> (case r of [] \<Rightarrow> False | c # _ \<Rightarrow> letter U c)))
      | _ \<Rightarrow> False)"

text \<open>The look-ahead \<open>(?=letter -? letter)\<close>.\<close>

definition hyphen_ahead :: "unicode_db \<Rightarrow> ustr \<Rightarrow> bool" where
  "hyphen_ahead U rest \<longleftrightarrow>
     (case rest of
        a # b # r \<Rightarrow>
          letter U a \<and>
          (letter U b \<or> (b = 45 \<and> (case r of [] \<Rightarrow> False | c # _ \<Rightarrow> letter U c)))
      | _ \<Rightarrow> False)"

text \<open>
  The third alternative of \<open>wordsep_re\<close>, a word: the lazy \<open>[^ws]+?\<close> has read at least
  one character (\<open>behind\<close> ends with it) and stops at the first position where one of
  its three endings matches: a hyphen of a hyphenated word, which is taken into the chunk;
  the end of the word; an em-dash ahead. The result is the number of further characters
  of the chunk.
\<close>

fun word_end :: "unicode_db \<Rightarrow> ustr \<Rightarrow> ustr \<Rightarrow> nat" where
  "word_end U behind [] = 0"
| "word_end U behind (c # cs) =
     (if c = 45 \<and> hyphen_behind U (c # behind) \<and> hyphen_ahead U cs then 1
      else if tw_whitespace c then 0
      else if (case behind of [] \<Rightarrow> False | p # _ \<Rightarrow> word_punct U p) \<and> emdash_ahead U (c # cs)
      then 0
      else Suc (word_end U (c # behind) cs))"

text \<open>
  The length of the match of \<open>wordsep_re\<close> that starts at a position with the text
  \<open>c # cs\<close> ahead: a run of white space, an em-dash between words, or a word. There is
  a match at every position, so the matches follow one another.
\<close>

definition match_len :: "unicode_db \<Rightarrow> ustr \<Rightarrow> nat \<Rightarrow> ustr \<Rightarrow> nat" where
  "match_len U behind c cs =
     (if tw_whitespace c then length (takeWhile tw_whitespace (c # cs))
      else if (case behind of [] \<Rightarrow> False | p # _ \<Rightarrow> word_punct U p) \<and> emdash_ahead U (c # cs)
      then length (takeWhile (\<lambda>x. x = 45) (c # cs))
      else Suc (word_end U (c # behind) cs))"

function wordsep_matches :: "unicode_db \<Rightarrow> ustr \<Rightarrow> ustr \<Rightarrow> ustr list" where
  "wordsep_matches U behind [] = []"
| "wordsep_matches U behind (c # cs) =
     (let n = match_len U behind c cs
      in take n (c # cs) # wordsep_matches U (rev (take n (c # cs)) @ behind) (drop n (c # cs)))"
  by pat_completeness auto

lemma match_len_pos: "0 < match_len U behind c cs"
  by (auto simp: match_len_def emdash_ahead_def Let_def)

termination wordsep_matches
proof (relation "measure (\<lambda>(U, behind, rest). length rest)")
  show "wf (measure (\<lambda>(U, behind, rest). length rest))"
    by simp
next
  fix U :: unicode_db and behind :: ustr and c :: nat and cs :: ustr and n :: nat
  assume "n = match_len U behind c cs"
  then have "0 < n"
    by (simp add: match_len_pos)
  then show "((U, rev (take n (c # cs)) @ behind, drop n (c # cs)), (U, behind, c # cs))
      \<in> measure (\<lambda>(U, behind, rest). length rest)"
    by simp
qed

text \<open>
  \<open>wordsep_re.split(text)\<close>: the matches are the captured group, and what \<open>re.split\<close>
  finds between two of them, before the first and after the last is the empty string.
\<close>

definition wordsep_re_split :: "unicode_db \<Rightarrow> ustr \<Rightarrow> ustr list" where
  "wordsep_re_split U text = [] # concat (map (\<lambda>m. [m, []]) (wordsep_matches U [] text))"

text \<open>\<open>TextWrapper._split\<close>: \<open>[c for c in chunks if c]\<close>.\<close>

definition split_chunks_re :: "unicode_db \<Rightarrow> ustr \<Rightarrow> ustr list" where
  "split_chunks_re U text = filter (\<lambda>c. c \<noteq> []) (wordsep_re_split U text)"

text \<open>\<open>TextWrapper._split_chunks\<close>.\<close>

definition split_chunks :: "unicode_db \<Rightarrow> ustr \<Rightarrow> ustr list" where
  "split_chunks U text = split_chunks_re U (munge_whitespace text)"

subsection \<open>Wrapping the chunks\<close>

text \<open>
  \<open>_wrap_chunks\<close> reverses the list of chunks and pops from its end; here the list stays
  in reading order and its head is the source's \<open>chunks[-1]\<close>. With exactly one chunk
  left, the source's \<open>chunks[0]\<close> is that chunk.

  The inner loop \<open>while chunks:\<close> moves chunks to the current line as long as they fit.
\<close>

fun take_fitting :: "nat \<Rightarrow> ustr list \<Rightarrow> ustr list \<Rightarrow> nat \<Rightarrow> ustr list \<times> ustr list \<times> nat" where
  "take_fitting width [] cur_line cur_len = ([], cur_line, cur_len)"
| "take_fitting width (c # cs) cur_line cur_len =
     (if cur_len + length c \<le> width
      then take_fitting width cs (cur_line @ [c]) (cur_len + length c)
      else (c # cs, cur_line, cur_len))"

text \<open>
  \<open>_handle_long_word\<close> with \<open>break_long_words\<close> and \<open>break_on_hyphens\<close>: the piece of
  the chunk put on the line and the rest left in \<open>chunks\<close>. \<open>cur_len\<close> never exceeds
  \<open>width\<close> where it is called, so the difference is the source's.
\<close>

definition handle_long_word :: "nat \<Rightarrow> ustr \<Rightarrow> nat \<Rightarrow> ustr \<times> ustr" where
  "handle_long_word width chunk cur_len =
     (let space_left = (if width < 1 then 1 else width - cur_len);
          hyphen = rfind 45 chunk space_left;
          endpos = (if length chunk > space_left \<and> hyphen > 0 \<and>
                    list_ex (\<lambda>c. c \<noteq> 45) (take (nat hyphen) chunk)
                 then nat hyphen + 1 else space_left)
      in (take endpos chunk, drop endpos chunk))"

text \<open>
  The loop \<open>while cur_line:\<close> of the truncating branch, on the current line with its
  last chunk first: the line with the placeholder after its last chunk that is not white
  space and leaves room for it, or \<open>None\<close> when the loop runs out of chunks (the
  \<open>else\<close> of the \<open>while\<close>).
\<close>

fun trim_line :: "nat \<Rightarrow> ustr list \<Rightarrow> nat \<Rightarrow> ustr option" where
  "trim_line width [] cur_len = None"
| "trim_line width (c # rcs) cur_len =
     (if strip c \<noteq> [] \<and> cur_len + length ellipsis \<le> width
      then Some (concat (rev (c # rcs)) @ ellipsis)
      else trim_line width rcs (cur_len - length c))"

text \<open>
  One pass of the outer loop \<open>while chunks:\<close>, for a non-empty \<open>chunks\<close>: \<open>Inl\<close> the
  chunks and lines the loop goes on with, \<open>Inr\<close> the lines when the pass ends in
  \<open>break\<close>. As \<open>max_lines = 1\<close>, the test \<open>len(lines) + 1 < self.max_lines\<close> is false.
\<close>

definition wrap_pass :: "nat \<Rightarrow> ustr list \<Rightarrow> ustr list \<Rightarrow> (ustr list \<times> ustr list) + ustr list" where
  "wrap_pass width chunks0 lines =
     (let chunks1 = (if strip (hd chunks0) = [] \<and> lines \<noteq> [] then tl chunks0 else chunks0);
          (chunks2, cur_line2, cur_len2) = take_fitting width chunks1 [] 0;
          (chunks3, cur_line3) =
            (case chunks2 of
               [] \<Rightarrow> (chunks2, cur_line2)
             | c # cs \<Rightarrow>
                 if length c > width
                 then (let (piece, rest) = handle_long_word width c cur_len2
                       in (rest # cs, cur_line2 @ [piece]))
                 else (chunks2, cur_line2));
          cur_line4 =
            (if cur_line3 \<noteq> [] \<and> strip (last cur_line3) = [] then butlast cur_line3
             else cur_line3);
          cur_len4 = sum_list (map length cur_line4)
      in if cur_line4 \<noteq> [] then
           if (chunks3 = [] \<or> (length chunks3 = 1 \<and> strip (hd chunks3) = [])) \<and> cur_len4 \<le> width
           then Inl (chunks3, lines @ [concat cur_line4])
           else
             (case trim_line width (rev cur_line4) cur_len4 of
                Some line \<Rightarrow> Inr (lines @ [line])
              | None \<Rightarrow>
                  if lines \<noteq> [] \<and> length (rstrip (last lines)) + length ellipsis \<le> width
                  then Inr (butlast lines @ [rstrip (last lines) @ ellipsis])
                  else Inr (lines @ [lstrip ellipsis]))
         else Inl (chunks3, lines))"

text \<open>What the outer loop has left to read: the characters and the chunks.\<close>

definition chunks_size :: "ustr list \<Rightarrow> nat" where
  "chunks_size chunks = sum_list (map (\<lambda>c. Suc (length c)) chunks)"

lemma take_fitting_size:
  "take_fitting width cs cur_line cur_len = (cs', cur_line', cur_len') \<Longrightarrow>
   cs' = cs \<or> chunks_size cs' < chunks_size cs"
proof (induction cs arbitrary: cur_line cur_len)
  case Nil
  then show ?case by simp
next
  case (Cons c cs)
  show ?case
  proof (cases "cur_len + length c \<le> width")
    case True
    with Cons.prems have "take_fitting width cs (cur_line @ [c]) (cur_len + length c) =
        (cs', cur_line', cur_len')"
      by simp
    from Cons.IH [OF this] show ?thesis
      by (auto simp: chunks_size_def)
  next
    case False
    with Cons.prems show ?thesis by simp
  qed
qed

lemma take_fitting_stuck:
  "take_fitting width (c # cs) cur_line cur_len = (c # cs, cur_line', cur_len') \<Longrightarrow>
   width < cur_len + length c \<and> cur_len' = cur_len"
proof (cases "cur_len + length c \<le> width")
  case True
  assume eq: "take_fitting width (c # cs) cur_line cur_len = (c # cs, cur_line', cur_len')"
  with True have "take_fitting width cs (cur_line @ [c]) (cur_len + length c) =
      (c # cs, cur_line', cur_len')"
    by simp
  from take_fitting_size [OF this] show ?thesis
    by (auto simp: chunks_size_def)
next
  case False
  assume "take_fitting width (c # cs) cur_line cur_len = (c # cs, cur_line', cur_len')"
  with False show ?thesis by simp
qed


lemma handle_long_word_rest:
  "handle_long_word width chunk cur_len = (piece, rest) \<Longrightarrow> length rest \<le> length chunk"
  by (auto simp: handle_long_word_def Let_def split: if_splits)

lemma handle_long_word_progress:
  assumes "handle_long_word width chunk 0 = (piece, rest)" and "chunk \<noteq> []"
  shows "length rest < length chunk"
proof -
  have "0 < (if width < 1 then 1 else width - 0)" by simp
  with assms show ?thesis
    by (auto simp: handle_long_word_def Let_def split: if_splits)
qed

lemma wrap_pass_decreases:
  assumes "wrap_pass width chunks lines = Inl (chunks', lines')" and "chunks \<noteq> []"
  shows "chunks_size chunks' < chunks_size chunks"
proof -
  define chunks1 where
    "chunks1 = (if strip (hd chunks) = [] \<and> lines \<noteq> [] then tl chunks else chunks)"
  obtain chunks2 cur_line2 cur_len2 where tf:
    "take_fitting width chunks1 [] 0 = (chunks2, cur_line2, cur_len2)"
    by (cases "take_fitting width chunks1 [] 0") auto
  define long where "long = (case chunks2 of [] \<Rightarrow> False | c # cs \<Rightarrow> length c > width)"
  obtain piece rest where hl: "handle_long_word width (hd chunks2) cur_len2 = (piece, rest)"
    by (cases "handle_long_word width (hd chunks2) cur_len2") auto
  define chunks3 where "chunks3 = (if long then rest # tl chunks2 else chunks2)"
  have c3: "chunks' = chunks3"
    using assms(1) tf hl
    by (auto simp: wrap_pass_def Let_def chunks1_def chunks3_def long_def
        split: if_splits list.splits option.splits prod.splits)
  from \<open>chunks \<noteq> []\<close> obtain c cs where chunks: "chunks = c # cs"
    by (cases chunks) auto
  have le1: "chunks1 = chunks \<or> chunks_size chunks1 < chunks_size chunks"
    by (auto simp: chunks1_def chunks chunks_size_def)
  from take_fitting_size [OF tf]
  have le2: "chunks2 = chunks1 \<or> chunks_size chunks2 < chunks_size chunks1" .
  have le3: "chunks_size chunks3 \<le> chunks_size chunks2"
    using handle_long_word_rest [OF hl]
    by (cases chunks2) (auto simp: chunks3_def long_def chunks_size_def)
  show ?thesis
  proof (cases "chunks2 = chunks")
    case False
    with le1 le2 le3 c3 show ?thesis by auto
  next
    case True
    with le1 le2 have eq1: "chunks1 = chunks"
      by auto
    from tf [unfolded eq1 True chunks] take_fitting_stuck [of width c cs "[]" 0 cur_line2 cur_len2]
    have stuck: "width < length c" "cur_len2 = 0"
      by (auto simp: True chunks)
    then have "c \<noteq> []" by auto
    from hl have "handle_long_word width c 0 = (piece, rest)"
      by (simp add: True chunks stuck)
    from handle_long_word_progress [OF this \<open>c \<noteq> []\<close>]
    have "length rest < length c" .
    moreover have "chunks3 = rest # cs"
      using stuck by (simp add: chunks3_def long_def True chunks)
    ultimately show ?thesis
      by (simp add: c3 chunks chunks_size_def)
  qed
qed

text \<open>The outer loop \<open>while chunks:\<close>.\<close>

function wrap_loop :: "nat \<Rightarrow> ustr list \<Rightarrow> ustr list \<Rightarrow> ustr list" where
  "wrap_loop width chunks lines =
     (if chunks = [] then lines
      else (case wrap_pass width chunks lines of
              Inr ls \<Rightarrow> ls
            | Inl (cs, ls) \<Rightarrow> wrap_loop width cs ls))"
  by pat_completeness auto

termination wrap_loop
proof (relation "measure (\<lambda>(width, chunks, lines). chunks_size chunks)")
  show "wf (measure (\<lambda>(width, chunks, lines). chunks_size chunks))"
    by simp
next
  fix width :: nat and chunks lines :: "ustr list" and p :: "ustr list \<times> ustr list"
    and cs ls :: "ustr list"
  assume "chunks \<noteq> []" and "wrap_pass width chunks lines = Inl p" and "(cs, ls) = p"
  then have "chunks_size cs < chunks_size chunks"
    using wrap_pass_decreases [of width chunks lines cs ls] by simp
  then show "((width, cs, ls), (width, chunks, lines))
      \<in> measure (\<lambda>(width, chunks, lines). chunks_size chunks)"
    by simp
qed

declare wrap_loop.simps [simp del]

text \<open>
  \<open>_wrap_chunks\<close>: the two checks before the loop (the indent is the empty string), then
  the loop from no lines.
\<close>

definition wrap_chunks :: "int \<Rightarrow> ustr list \<Rightarrow> exn + ustr list" where
  "wrap_chunks width chunks =
     (if width \<le> 0 then Inl ValueError
      else if int (length ([] :: ustr)) + int (length (lstrip ellipsis)) > width
      then Inl ValueError
      else Inr (wrap_loop (nat width) chunks []))"

definition wrap :: "unicode_db \<Rightarrow> int \<Rightarrow> ustr \<Rightarrow> exn + ustr list" where
  "wrap U width text = wrap_chunks width (split_chunks U text)"

definition fill :: "unicode_db \<Rightarrow> int \<Rightarrow> ustr \<Rightarrow> exn + ustr" where
  "fill U width text =
     (case wrap U width text of
        Inl e \<Rightarrow> Inl e
      | Inr lines \<Rightarrow> Inr (str_join [10] lines))"

definition shorten :: "unicode_db \<Rightarrow> ustr \<Rightarrow> int \<Rightarrow> exn + ustr" where
  "shorten U text width = fill U width (str_join [32] (str_split (strip text)))"

section \<open>Tool records\<close>

text \<open>
  A tool is the dictionary \<open>csv.DictReader\<close> builds for one row. Its keys are the field
  names of the header, which are strings, and the key \<open>None\<close> (the reader's
  \<open>restkey\<close>). Under a string key the value is a string or \<open>None\<close> (the reader's
  \<open>restval\<close>); under the key \<open>None\<close> it is a list of strings. \<open>str_items\<close> holds the
  entries under string keys, with \<open>Some None\<close> for the value \<open>None\<close>; \<open>none_item\<close> is
  the entry under the key \<open>None\<close>.
\<close>

record pydict =
  str_items :: "ustr \<rightharpoonup> ustr option"
  none_item :: "ustr list option"

text \<open>\<open>d.get(k, default)\<close> for a string key; the result \<open>None\<close> is Python's \<open>None\<close>.\<close>

definition dict_get :: "pydict \<Rightarrow> ustr \<Rightarrow> ustr \<Rightarrow> ustr option" where
  "dict_get d k dflt = (case str_items d k of None \<Rightarrow> Some dflt | Some v \<Rightarrow> v)"

text \<open>What an f-string or \<open>str.format\<close> puts for a value: \<open>str(None)\<close> is \<open>"None"\<close>.\<close>

definition format_value :: "ustr option \<Rightarrow> ustr" where
  "format_value v = (case v of None \<Rightarrow> u ''None'' | Some s \<Rightarrow> s)"

section \<open>The message composer\<close>

text \<open>
  The f-string \<open>static_text\<close> and \<open>template.format\<close> of \<open>compose_post\<close>. The
  glyphs are U+1F195, U+FF1A, U+3002, the seven characters of the call to action
  (U+8A73 U+3057 U+304F U+306F U+3053 U+3061 U+3089), U+1F449 and, after \<open>#AI\<close>,
  U+30C4 U+30FC U+30EB.
\<close>

definition call_to_action :: ustr where
  "call_to_action = [32, 35443, 12375, 12367, 12399, 12371, 12385, 12425, 32, 128073, 32]"

definition hashtags :: ustr where
  "hashtags = u '' #AI #AI'' @ [12484, 12540, 12523]"

definition template_format :: "ustr \<Rightarrow> ustr \<Rightarrow> ustr \<Rightarrow> ustr \<Rightarrow> ustr" where
  "template_format name tagline short_desc url =
     [127381] @ name @ [65306] @ tagline @ [12290] @ short_desc @ call_to_action @ url @ hashtags"

definition static_text :: "ustr \<Rightarrow> ustr \<Rightarrow> ustr \<Rightarrow> ustr" where
  "static_text name tagline url =
     [127381] @ name @ [65306] @ tagline @ [12290] @ call_to_action @ url @ hashtags"

text \<open>
  \<open>compose_post\<close>. \<open>description.strip()\<close> raises \<open>AttributeError\<close> when the value is
  \<open>None\<close>; \<open>textwrap.shorten\<close> may raise \<open>ValueError\<close>.
\<close>

definition compose_post :: "unicode_db \<Rightarrow> pydict \<Rightarrow> exn + ustr" where
  "compose_post U tool =
     (let name = format_value (dict_get tool (u ''name'') []);
          tagline = format_value (dict_get tool (u ''tagline'') []);
          description = dict_get tool (u ''description'') [];
          url = format_value (dict_get tool (u ''url'') []);
          static_length = int (length (static_text name tagline url));
          max_total_length = 140;
          available_for_desc = max_total_length - static_length
      in case description of
           None \<Rightarrow> Inl AttributeError
         | Some d \<Rightarrow>
             (let short_desc = strip d
              in if available_for_desc > 0 then
                   if int (length short_desc) > available_for_desc then
                     (case shorten U short_desc available_for_desc of
                        Inl e \<Rightarrow> Inl e
                      | Inr s \<Rightarrow> Inr (template_format name tagline s url))
                   else Inr (template_format name tagline short_desc url)
                 else Inr (template_format name tagline [] url)))"

text \<open>
  The length of the fixed parts of the message for a tool: \<open>static_length\<close> of
  \<open>compose_post\<close>.
\<close>

definition static_length :: "pydict \<Rightarrow> nat" where
  "static_length tool =
     length (static_text (format_value (dict_get tool (u ''name'') []))
       (format_value (dict_get tool (u ''tagline'') []))
       (format_value (dict_get tool (u ''url'') [])))"

section \<open>The data source reader\<close>

text \<open>
  \<open>csv.DictReader\<close> over the rows \<open>csv.reader\<close> yields from the file (each a list of
  strings; a blank line is the empty list). The first row gives the field names. Blank
  rows are skipped. For the others, \<open>dict(zip(fieldnames, row))\<close> lets a later
  column of the same name win; a row longer than the header stores its surplus under the
  key \<open>None\<close>, and a row shorter than the header maps the remaining field names to
  \<open>None\<close>.
\<close>

definition dict_row :: "ustr list \<Rightarrow> ustr list \<Rightarrow> pydict" where
  "dict_row fieldnames row =
     (let d = fold (\<lambda>(k, v) m. m(k \<mapsto> Some v)) (zip fieldnames row) Map.empty;
          lf = length fieldnames;
          lr = length row
      in if lf < lr then \<lparr>str_items = d, none_item = Some (drop lf row)\<rparr>
         else if lf > lr
         then \<lparr>str_items = fold (\<lambda>k m. m(k \<mapsto> None)) (drop lr fieldnames) d, none_item = None\<rparr>
         else \<lparr>str_items = d, none_item = None\<rparr>)"

definition dict_reader :: "ustr list list \<Rightarrow> pydict list" where
  "dict_reader rows =
     (case rows of
        [] \<Rightarrow> []
      | fieldnames # rest \<Rightarrow> map (dict_row fieldnames) (filter (\<lambda>row. row \<noteq> []) rest))"

text \<open>
  The truth value of \<open>row.get("name")\<close>: false for a missing key, for \<open>None\<close> and for
  the empty string.
\<close>

definition has_name :: "pydict \<Rightarrow> bool" where
  "has_name row \<longleftrightarrow>
     (case str_items row (u ''name'') of
        None \<Rightarrow> False
      | Some None \<Rightarrow> False
      | Some (Some s) \<Rightarrow> s \<noteq> [])"

text \<open>
  \<open>read_ai_tools\<close>. The file system is a map from the paths that exist to the rows
  \<open>csv.reader\<close> yields from the file there.
\<close>

definition read_ai_tools :: "(ustr \<rightharpoonup> ustr list list) \<Rightarrow> ustr \<Rightarrow> exn + pydict list" where
  "read_ai_tools fs csv_path =
     (case fs csv_path of
        None \<Rightarrow> Inl FileNotFoundError
      | Some rows \<Rightarrow>
          (let tools = filter has_name (dict_reader rows)
           in if tools = [] then Inl ValueError else Inr tools))"

section \<open>The card renderer\<close>

text \<open>
  The image library is outside the repository. An image is its size, its background and
  the texts drawn on it, each with its position and font. The renderer's environment
  gives the process environment, which paths exist, whether \<open>ImageFont.truetype\<close>
  loads a font file at a size (it raises \<open>OSError\<close> otherwise), whether the
  installed library still has \<open>ImageDraw.textsize\<close> (the releases before 10 have
  it, the later ones do not), the size it measures when it succeeds, and whether
  \<open>image.save\<close> can write a path (it raises \<open>OSError\<close> otherwise). \<open>Image.new\<close>,
  \<open>ImageDraw.Draw\<close> and \<open>ImageFont.load_default\<close> do not fail.
\<close>

datatype font = TrueType ustr nat | DefaultFont

record drawn_text =
  at_x :: int
  at_y :: int
  content :: ustr
  drawn_font :: font

record image =
  img_width :: nat
  img_height :: nat
  bg_color :: "nat \<times> nat \<times> nat"
  drawn :: "drawn_text list"

record render_env =
  font_environ :: "ustr \<rightharpoonup> ustr"
  path_exists :: "ustr \<Rightarrow> bool"
  truetype_loads :: "ustr \<Rightarrow> nat \<Rightarrow> bool"
  has_textsize :: bool
  textsize :: "ustr \<Rightarrow> font \<Rightarrow> nat \<times> nat"
  writable :: "ustr \<Rightarrow> bool"

definition truetype :: "render_env \<Rightarrow> ustr \<Rightarrow> nat \<Rightarrow> exn + font" where
  "truetype E path sz = (if truetype_loads E path sz then Inr (TrueType path sz) else Inl OSError)"

text \<open>
  The \<open>try\<close> block around the font loading: the three fonts for the title, the
  subtitle and the URL. Any exception of a load is caught and all three fonts are the
  default font.
\<close>

definition load_fonts :: "render_env \<Rightarrow> font \<times> font \<times> font" where
  "load_fonts E =
     (case font_environ E (u ''AI_TOOL_FONT'') of
        None \<Rightarrow> (DefaultFont, DefaultFont, DefaultFont)
      | Some font_path \<Rightarrow>
          if font_path \<noteq> [] \<and> path_exists E font_path then
            (case truetype E font_path 60 of
               Inl e \<Rightarrow> (DefaultFont, DefaultFont, DefaultFont)
             | Inr title_font \<Rightarrow>
                 (case truetype E font_path 36 of
                    Inl e \<Rightarrow> (DefaultFont, DefaultFont, DefaultFont)
                  | Inr subtitle_font \<Rightarrow>
                      (case truetype E font_path 28 of
                         Inl e \<Rightarrow> (DefaultFont, DefaultFont, DefaultFont)
                       | Inr url_font \<Rightarrow> (title_font, subtitle_font, url_font))))
          else (DefaultFont, DefaultFont, DefaultFont))"

text \<open>
  The font of \<open>ImageFont.load_default\<close>, in the releases that have
  \<open>ImageDraw.textsize\<close>, is a bitmap font that encodes the text as Latin-1: a text with
  a character above U+00FF cannot be measured or drawn with it.
\<close>

definition latin1 :: "ustr \<Rightarrow> bool" where
  "latin1 t \<longleftrightarrow> list_all (\<lambda>c. c \<le> 255) t"

text \<open>
  \<open>center_draw\<close>. The call \<open>draw.textsize(text, font=font)\<close> raises
  \<open>AttributeError\<close> where the library has no \<open>textsize\<close>, \<open>TypeError\<close> for a
  text that is \<open>None\<close>, and \<open>UnicodeEncodeError\<close> for a text outside Latin-1 with
  the default font. \<open>//\<close> is the floor division of the integers.
\<close>

definition center_draw :: "render_env \<Rightarrow> image \<Rightarrow> ustr option \<Rightarrow> font \<Rightarrow> int \<Rightarrow> exn + image" where
  "center_draw E img text fnt y =
     (if \<not> has_textsize E then Inl AttributeError
      else
        (case text of
           None \<Rightarrow> Inl TypeError
         | Some t \<Rightarrow>
             if fnt = DefaultFont \<and> \<not> latin1 t then Inl UnicodeEncodeError
             else
               (let (w, h) = textsize E t fnt;
                    x = (int (img_width img) - int w) div 2
                in Inr (img\<lparr>drawn := drawn img @
                     [\<lparr>at_x = x, at_y = y, content = t, drawn_font = fnt\<rparr>]\<rparr>))))"

text \<open>
  \<open>generate_image\<close>: the result is the path written and the image saved there. The
  three heights \<open>int(675 * 0.25)\<close>, \<open>int(675 * 0.45)\<close> and \<open>int(675 * 0.65)\<close> are 168,
  303 and 438.
\<close>

definition generate_image :: "render_env \<Rightarrow> pydict \<Rightarrow> ustr \<Rightarrow> exn + ustr \<times> image" where
  "generate_image E tool output_path =
     (let width = 1200; height = 675;
          img0 = \<lparr>img_width = width, img_height = height, bg_color = (255, 255, 255), drawn = []\<rparr>;
          (title_font, subtitle_font, url_font) = load_fonts E;
          name = dict_get tool (u ''name'') [];
          tagline = dict_get tool (u ''tagline'') [];
          url = dict_get tool (u ''url'') []
      in case center_draw E img0 name title_font 168 of
           Inl e \<Rightarrow> Inl e
         | Inr img1 \<Rightarrow>
             (case center_draw E img1 tagline subtitle_font 303 of
                Inl e \<Rightarrow> Inl e
              | Inr img2 \<Rightarrow>
                  (case center_draw E img2 url url_font 438 of
                     Inl e \<Rightarrow> Inl e
                   | Inr img3 \<Rightarrow>
                       if writable E output_path then Inr (output_path, img3)
                       else Inl OSError)))"

section \<open>The publisher\<close>

text \<open>
  A parsed JSON body; numbers are integers here.
\<close>

datatype json =
    JNull
  | JBool bool
  | JInt int
  | JString ustr
  | JArray "json list"
  | JObject "(ustr \<times> json) list"

text \<open>
  A response of the HTTP library: the status code, the body as text, and what
  \<open>resp.json()\<close> parses from the body (\<open>None\<close> when the body is not JSON and the call
  raises).
\<close>

record response =
  status_code :: int
  body_text :: ustr
  json_body :: "json option"

text \<open>
  The two requests of \<open>post_to_x\<close>: the upload of the image file at a path, and the
  creation of the post with its text and the media identifier (\<open>None\<close> is Python's
  \<open>None\<close>).
\<close>

datatype request =
    MediaUpload ustr
  | CreateTweet ustr "json option"

text \<open>
  The publisher's environment: the process environment, which files \<open>open\<close> can read,
  what \<open>requests.post\<close> returns or raises for a request, and the text \<open>str\<close> gives for
  a parsed body.
\<close>

record publish_env =
  environ :: "ustr \<rightharpoonup> ustr"
  can_open :: "ustr \<Rightarrow> bool"
  http_post :: "request \<Rightarrow> exn + response"
  json_str :: "json \<Rightarrow> ustr"

text \<open>
  What a call of \<open>post_to_x\<close> does: it returns or raises, the lines it prints, and the
  requests it sends, in order.
\<close>

record outcome =
  result :: "exn + unit"
  stdout :: "ustr list"
  sent :: "request list"

text \<open>The truth value of an environment value in \<open>all([...])\<close>.\<close>

definition truthy :: "ustr option \<Rightarrow> bool" where
  "truthy v \<longleftrightarrow> (case v of None \<Rightarrow> False | Some s \<Rightarrow> s \<noteq> [])"

text \<open>\<open>str\<close> of an integer, in decimal.\<close>

fun str_nat :: "nat \<Rightarrow> ustr" where
  "str_nat n = (if n < 10 then [48 + n] else str_nat (n div 10) @ [48 + n mod 10])"

declare str_nat.simps [simp del]

definition str_int :: "int \<Rightarrow> ustr" where
  "str_int i = (if i < 0 then 45 # str_nat (nat (- i)) else str_nat (nat i))"

text \<open>
  \<open>Response.raise_for_status\<close> of the HTTP library raises \<open>HTTPError\<close> for the client
  and server error codes, 400 to 599.
\<close>

definition raise_for_status :: "response \<Rightarrow> exn + unit" where
  "raise_for_status resp =
     (if 400 \<le> status_code resp \<and> status_code resp < 600 then Inl HTTPError else Inr ())"

text \<open>
  \<open>upload_resp.json().get('media_id_string')\<close>: \<open>json()\<close> raises when the body is not
  JSON, and only an object has \<open>get\<close>; a later entry of the same key wins.
\<close>

definition media_id_of :: "response \<Rightarrow> exn + json option" where
  "media_id_of resp =
     (case json_body resp of
        None \<Rightarrow> Inl JSONDecodeError
      | Some (JObject kvs) \<Rightarrow> Inr (map_of (rev kvs) (u ''media_id_string''))
      | Some _ \<Rightarrow> Inl AttributeError)"

definition post_to_x :: "publish_env \<Rightarrow> ustr \<Rightarrow> ustr \<Rightarrow> outcome" where
  "post_to_x E status_text image_path =
     (let api_key = environ E (u ''TWITTER_API_KEY'');
          api_secret = environ E (u ''TWITTER_API_SECRET'');
          access_token = environ E (u ''TWITTER_ACCESS_TOKEN'');
          access_secret = environ E (u ''TWITTER_ACCESS_SECRET'')
      in if \<not> list_all truthy [api_key, api_secret, access_token, access_secret] then
           \<lparr>result = Inr (),
            stdout = [u ''Missing Twitter API credentials. Printing instead:'', status_text,
                      u ''(Image saved to '' @ image_path @ u '')''],
            sent = []\<rparr>
         else if \<not> can_open E image_path then
           \<lparr>result = Inl FileNotFoundError, stdout = [], sent = []\<rparr>
         else
           (case http_post E (MediaUpload image_path) of
              Inl e \<Rightarrow> \<lparr>result = Inl e, stdout = [], sent = [MediaUpload image_path]\<rparr>
            | Inr upload_resp \<Rightarrow>
                (case raise_for_status upload_resp of
                   Inl e \<Rightarrow> \<lparr>result = Inl e, stdout = [], sent = [MediaUpload image_path]\<rparr>
                 | Inr _ \<Rightarrow>
                     (case media_id_of upload_resp of
                        Inl e \<Rightarrow> \<lparr>result = Inl e, stdout = [], sent = [MediaUpload image_path]\<rparr>
                      | Inr media_id \<Rightarrow>
                          (let tweet = CreateTweet status_text media_id;
                               reqs = [MediaUpload image_path, tweet]
                           in case http_post E tweet of
                                Inl e \<Rightarrow> \<lparr>result = Inl e, stdout = [], sent = reqs\<rparr>
                              | Inr resp \<Rightarrow>
                                  if status_code resp \<ge> 400 then
                                    \<lparr>result = Inr (),
                                     stdout = [u ''Failed to post tweet: '' @
                                               str_int (status_code resp) @ [32] @ body_text resp],
                                     sent = reqs\<rparr>
                                  else
                                    (case json_body resp of
                                       None \<Rightarrow> \<lparr>result = Inl JSONDecodeError, stdout = [], sent = reqs\<rparr>
                                     | Some j \<Rightarrow>
                                         \<lparr>result = Inr (),
                                          stdout = [u ''Posted tweet successfully: '' @ json_str E j],
                                          sent = reqs\<rparr>))))))"

section \<open>Notions of the claims and example inputs\<close>

text \<open>The four credential variables \<open>post_to_x\<close> reads.\<close>

definition credential_names :: "ustr list" where
  "credential_names =
     [u ''TWITTER_API_KEY'', u ''TWITTER_API_SECRET'', u ''TWITTER_ACCESS_TOKEN'',
      u ''TWITTER_ACCESS_SECRET'']"

text \<open>The successful status codes of HTTP, 200 to 299.\<close>

definition success_status :: "int \<Rightarrow> bool" where
  "success_status s \<longleftrightarrow> 200 \<le> s \<and> s < 300"

text \<open>
  The custom font is in use: the variable \<open>AI_TOOL_FONT\<close> is set and not empty, its path
  exists and the font loads at the three sizes.
\<close>

definition custom_font_loads :: "render_env \<Rightarrow> bool" where
  "custom_font_loads E \<longleftrightarrow>
     (case font_environ E (u ''AI_TOOL_FONT'') of
        None \<Rightarrow> False
      | Some font_path \<Rightarrow>
          font_path \<noteq> [] \<and> path_exists E font_path \<and> truetype_loads E font_path 60 \<and>
          truetype_loads E font_path 36 \<and> truetype_loads E font_path 28)"


text \<open>A string without white space, and a string of white space only.\<close>

definition nospace :: "ustr \<Rightarrow> bool" where
  "nospace s \<longleftrightarrow> list_all (\<lambda>x. \<not> isspace x) s"

definition allspace :: "ustr \<Rightarrow> bool" where
  "allspace s \<longleftrightarrow> list_all isspace s"



text \<open>A tool whose four fields are strings, by the four values.\<close>

definition tool_of :: "ustr \<Rightarrow> ustr \<Rightarrow> ustr \<Rightarrow> ustr \<Rightarrow> pydict" where
  "tool_of name tagline description url =
     \<lparr>str_items = [u ''name'' \<mapsto> Some name, u ''tagline'' \<mapsto> Some tagline,
        u ''description'' \<mapsto> Some description, u ''url'' \<mapsto> Some url],
      none_item = None\<rparr>"

text \<open>The classes \<open>\w\<close> and \<open>\d\<close> on ASCII text.\<close>

definition ascii_db :: unicode_db where
  "ascii_db =
     \<lparr>re_w = (\<lambda>c. (48 \<le> c \<and> c \<le> 57) \<or> (65 \<le> c \<and> c \<le> 90) \<or> (97 \<le> c \<and> c \<le> 122) \<or> c = 95),
      re_d = (\<lambda>c. 48 \<le> c \<and> c \<le> 57)\<rparr>"

text \<open>A table with a full row, a blank line, a row without a name and a short row.\<close>

definition demo_header :: "ustr list" where
  "demo_header = [u ''name'', u ''tagline'', u ''description'', u ''url'']"

definition demo_fs :: "ustr \<rightharpoonup> ustr list list" where
  "demo_fs =
     [u ''ai_tools.csv'' \<mapsto>
        [demo_header,
         [u ''Foo'', u ''bar'', u ''A tool.'', u ''http://x.test''],
         [],
         [[], u ''no name'', u ''skipped'', u ''http://y.test''],
         [u ''Short'']],
      u ''nameless.csv'' \<mapsto> [demo_header, [[], u ''no name'', u ''skipped'', u ''http://y.test'']]]"

text \<open>A table with the four columns whose only row stops after the name.\<close>

definition short_fs :: "ustr \<rightharpoonup> ustr list list" where
  "short_fs = [u ''ai_tools.csv'' \<mapsto> [demo_header, [u ''Foo'']]]"

text \<open>
  A renderer's environment whose font variable names a file that does not exist, with a
  library that has \<open>ImageDraw.textsize\<close>; and a tagline in Japanese
  (U+7121 U+6599 U+306E, \<open>AI\<close>, U+30C4 U+30FC U+30EB).
\<close>

definition demo_render_env :: render_env where
  "demo_render_env =
     \<lparr>font_environ = [u ''AI_TOOL_FONT'' \<mapsto> u ''missing.ttf''],
      path_exists = (\<lambda>p. False),
      truetype_loads = (\<lambda>p n. False),
      has_textsize = True,
      textsize = (\<lambda>t f. (10 * length t, 20)),
      writable = (\<lambda>p. True)\<rparr>"

definition japanese_tagline :: ustr where
  "japanese_tagline = [28961, 26009, 12398, 65, 73, 12484, 12540, 12523]"

text \<open>
  A publisher's environment with the given process environment, in which every file
  opens and the two requests get the two given responses.
\<close>

definition demo_credentials :: "ustr \<rightharpoonup> ustr" where
  "demo_credentials =
     [u ''TWITTER_API_KEY'' \<mapsto> u ''key'', u ''TWITTER_API_SECRET'' \<mapsto> u ''secret'',
      u ''TWITTER_ACCESS_TOKEN'' \<mapsto> u ''token'', u ''TWITTER_ACCESS_SECRET'' \<mapsto> u ''tsecret'']"

definition demo_publish_env :: "(ustr \<rightharpoonup> ustr) \<Rightarrow> response \<Rightarrow> response \<Rightarrow> publish_env" where
  "demo_publish_env env upload_resp tweet_resp =
     \<lparr>environ = env, can_open = (\<lambda>p. True),
      http_post = (\<lambda>r. case r of MediaUpload p \<Rightarrow> Inr upload_resp | CreateTweet t m \<Rightarrow> Inr tweet_resp),
      json_str = (\<lambda>j. u ''{}'')\<rparr>"

section \<open>The composer: facts\<close>

lemma static_text_length:
  "length (static_text name tagline url) = 25 + length name + length tagline + length url"
  by (simp add: static_text_def call_to_action_def hashtags_def u_def)

lemma template_format_length:
  "length (template_format name tagline short_desc url) =
     length (static_text name tagline url) + length short_desc"
  by (simp add: static_text_def template_format_def)

lemma template_format_empty: "template_format name tagline [] url = static_text name tagline url"
  by (simp add: static_text_def template_format_def)

lemma wrap_chunks_ok: "0 < width \<Longrightarrow> wrap_chunks width chunks = Inr (wrap_loop (nat width) chunks [])"
  by (simp add: wrap_chunks_def ellipsis_def lstrip_def isspace_def)

lemma shorten_ok:
  "0 < width \<Longrightarrow>
   shorten U text width =
     Inr (str_join [10] (wrap_loop (nat width)
       (split_chunks U (str_join [32] (str_split (strip text)))) []))"
  by (simp add: shorten_def fill_def wrap_def wrap_chunks_ok)

lemma u_keys:
  "u ''name'' \<noteq> u ''tagline''" "u ''name'' \<noteq> u ''description''" "u ''name'' \<noteq> u ''url''"
  "u ''tagline'' \<noteq> u ''description''" "u ''tagline'' \<noteq> u ''url''"
  "u ''description'' \<noteq> u ''url''"
  by (simp_all add: u_def)

lemma tool_of_get:
  "dict_get (tool_of n t d url) (u ''name'') [] = Some n"
  "dict_get (tool_of n t d url) (u ''tagline'') [] = Some t"
  "dict_get (tool_of n t d url) (u ''description'') [] = Some d"
  "dict_get (tool_of n t d url) (u ''url'') [] = Some url"
  using u_keys by (simp_all add: dict_get_def tool_of_def)

text \<open>
  Claim C1: for every tool record with string fields the message of \<open>compose_post\<close> has
  at most 140 characters. The code does not keep this bound: when the fixed parts of the
  template alone are longer than 140 characters the description is left out and nothing
  else is shortened. For the name \<open>Foo\<close>, the tagline \<open>bar\<close>, the description
  \<open>A tool.\<close> and a URL of 120 characters, \<open>compose_post\<close> returns the fixed text
  with the whole URL, a message of 151 characters.
\<close>

theorem compose_post_over_140:
  "compose_post U (tool_of (u ''Foo'') (u ''bar'') (u ''A tool.'')
          (u ''https://example.com/'' @ replicate 100 97)) =
     Inr (template_format (u ''Foo'') (u ''bar'') [] (u ''https://example.com/'' @ replicate 100 97)) \<and>
   length (template_format (u ''Foo'') (u ''bar'') []
          (u ''https://example.com/'' @ replicate 100 97)) = 151"
  by (simp add: compose_post_def tool_of_get format_value_def static_text_length
      template_format_length Let_def) (simp add: u_def)

text \<open>
  Claim C7: for every tool record whose fixed template parts alone (marker glyph, name,
  separator, tagline, punctuation, call to action, URL, hashtags) have at least 140
  characters, the description placeholder of the composed message is the empty string:
  the message is the fixed text itself. The description has to be a string, as in every
  tool record.
\<close>

theorem compose_post_static_full:
  assumes "dict_get tool (u ''description'') [] = Some d"
    and "140 \<le> static_length tool"
  shows "compose_post U tool =
     Inr (template_format (format_value (dict_get tool (u ''name'') []))
       (format_value (dict_get tool (u ''tagline'') [])) []
       (format_value (dict_get tool (u ''url'') [])))"
  using assms by (simp add: compose_post_def static_length_def Let_def template_format_empty)

theorem compose_post_static_full_witness:
  "compose_post ascii_db (tool_of (replicate 115 97) [] (u ''A tool.'') []) =
     Inr (template_format (replicate 115 97) [] [] [])"
proof -
  have d: "dict_get (tool_of (replicate 115 97) [] (u ''A tool.'') []) (u ''description'') [] =
      Some (u ''A tool.'')"
    by (simp add: tool_of_get)
  have l: "140 \<le> static_length (tool_of (replicate 115 97) [] (u ''A tool.'') [])"
    by (simp add: static_length_def tool_of_get format_value_def static_text_length)
  from compose_post_static_full [OF d l, of ascii_db] show ?thesis
    by (simp add: tool_of_get format_value_def)
qed

text \<open>
  Claim C10: for every record whose fields are strings, \<open>compose_post\<close> terminates and
  returns a string without raising: the truncation branch is entered only with a budget
  of at least one character, and with a width of at least one character
  \<open>textwrap.shorten\<close> never fails, as the one-character placeholder fits. Every function
  of the model is total, so the result \<open>Inr m\<close> is a message the call returns. Only the
  description has to be a string for this.
\<close>

theorem compose_post_returns:
  assumes "dict_get tool (u ''description'') [] = Some d"
  shows "(\<exists>m. compose_post U tool = Inr m) \<and>
    (\<forall>text width. 0 < width \<longrightarrow> (\<exists>s. shorten U text width = Inr s))"
  using assms by (simp add: compose_post_def Let_def shorten_ok)

theorem compose_post_returns_witness:
  "(\<exists>m. compose_post ascii_db (tool_of (replicate 105 97) [] (u ''hello world foo'') []) = Inr m) \<and>
   (\<exists>s. shorten ascii_db (u ''hello world foo'') 10 = Inr s)"
proof -
  have d: "dict_get (tool_of (replicate 105 97) [] (u ''hello world foo'') [])
      (u ''description'') [] = Some (u ''hello world foo'')"
    by (simp add: tool_of_get)
  from compose_post_returns [OF d, of ascii_db] show ?thesis
    by simp
qed

section \<open>The truncation of the description: facts\<close>

declare wordsep_matches.simps(2) [simp del]

subsection \<open>The collapsed text\<close>

lemma nospace_simps [simp]:
  "nospace []" "nospace (x # xs) \<longleftrightarrow> \<not> isspace x \<and> nospace xs"
  "nospace (xs @ ys) \<longleftrightarrow> nospace xs \<and> nospace ys"
  by (simp_all add: nospace_def)












subsection \<open>The chunks of the splitter\<close>

















subsection \<open>The wrapping loop\<close>



lemma allspace_take: "allspace c \<Longrightarrow> allspace (take e c)"
  by (auto simp: allspace_def list_all_iff dest: in_set_takeD)













subsection \<open>The shortened text\<close>










subsection \<open>Three descriptions\<close>
















section \<open>The data source reader: facts\<close>

lemma has_name_iff:
  "has_name row \<longleftrightarrow> (\<exists>s. s \<noteq> [] \<and> str_items row (u ''name'') = Some (Some s))"
  by (auto simp: has_name_def split: option.splits)

lemma demo_rows:
  "has_name (dict_row demo_header [u ''Foo'', u ''bar'', u ''A tool.'', u ''http://x.test''])"
  "\<not> has_name (dict_row demo_header [[], u ''no name'', u ''skipped'', u ''http://y.test''])"
  "has_name (dict_row demo_header [u ''Short''])"
  by (simp_all add: has_name_def dict_row_def demo_header_def u_def)

text \<open>
  Claim C3: for every input row that has a non-empty name but lacks one of the optional
  fields (tagline, description, url), the record \<open>read_ai_tools\<close> produces maps the
  missing field to the empty string. The code misses this. For a file with the header
  \<open>name,tagline,description,url\<close> and the row \<open>Foo\<close>, \<open>read_ai_tools\<close> returns the
  reader's dictionary as it is, in which the three missing fields are \<open>None\<close>. The
  lookup \<open>get(field, "")\<close> of the consumers then finds the key and returns \<open>None\<close>,
  not the default, and \<open>compose_post\<close> raises \<open>AttributeError\<close>.
\<close>

theorem read_ai_tools_short_row:
  "read_ai_tools short_fs (u ''ai_tools.csv'') = Inr [dict_row demo_header [u ''Foo'']] \<and>
   str_items (dict_row demo_header [u ''Foo'']) (u ''name'') = Some (Some (u ''Foo'')) \<and>
   str_items (dict_row demo_header [u ''Foo'']) (u ''tagline'') = Some None \<and>
   str_items (dict_row demo_header [u ''Foo'']) (u ''description'') = Some None \<and>
   str_items (dict_row demo_header [u ''Foo'']) (u ''url'') = Some None \<and>
   dict_get (dict_row demo_header [u ''Foo'']) (u ''tagline'') [] = None \<and>
   compose_post U (dict_row demo_header [u ''Foo'']) = Inl AttributeError"
  by (simp add: read_ai_tools_def short_fs_def dict_reader_def has_name_def dict_row_def
      demo_header_def dict_get_def compose_post_def Let_def u_def)

text \<open>
  Claim C4: \<open>read_ai_tools\<close> raises \<open>FileNotFoundError\<close> when the path does not exist.
  Otherwise it returns one record per row of the reader, in order, without the rows whose
  name is absent, \<open>None\<close> or empty, and it raises \<open>ValueError\<close> exactly when no row is
  left.
\<close>

theorem read_ai_tools_contract:
  "(fs csv_path = None \<longrightarrow> read_ai_tools fs csv_path = Inl FileNotFoundError) \<and>
   (\<forall>rows. fs csv_path = Some rows \<longrightarrow>
      (let valid = filter (\<lambda>row. \<exists>s. s \<noteq> [] \<and> str_items row (u ''name'') = Some (Some s))
                     (dict_reader rows)
       in (valid = [] \<longrightarrow> read_ai_tools fs csv_path = Inl ValueError) \<and>
          (valid \<noteq> [] \<longrightarrow> read_ai_tools fs csv_path = Inr valid)))"
  by (simp add: read_ai_tools_def Let_def has_name_iff [symmetric])

theorem read_ai_tools_contract_witness:
  "read_ai_tools demo_fs (u ''missing.csv'') = Inl FileNotFoundError \<and>
   read_ai_tools demo_fs (u ''ai_tools.csv'') =
     Inr [dict_row demo_header [u ''Foo'', u ''bar'', u ''A tool.'', u ''http://x.test''],
          dict_row demo_header [u ''Short'']] \<and>
   read_ai_tools demo_fs (u ''nameless.csv'') = Inl ValueError"
proof -
  have 1: "demo_fs (u ''missing.csv'') = None"
    by (simp add: demo_fs_def u_def)
  have 2: "demo_fs (u ''ai_tools.csv'') = Some
        [demo_header,
         [u ''Foo'', u ''bar'', u ''A tool.'', u ''http://x.test''],
         [],
         [[], u ''no name'', u ''skipped'', u ''http://y.test''],
         [u ''Short'']]"
    by (simp add: demo_fs_def u_def)
  have 3: "demo_fs (u ''nameless.csv'') =
      Some [demo_header, [[], u ''no name'', u ''skipped'', u ''http://y.test'']]"
    by (simp add: demo_fs_def u_def)
  from read_ai_tools_contract [of demo_fs "u ''missing.csv''"] 1
  have a: "read_ai_tools demo_fs (u ''missing.csv'') = Inl FileNotFoundError"
    by simp
  from read_ai_tools_contract [of demo_fs "u ''ai_tools.csv''", THEN conjunct2, rule_format, OF 2]
  have b: "read_ai_tools demo_fs (u ''ai_tools.csv'') =
     Inr [dict_row demo_header [u ''Foo'', u ''bar'', u ''A tool.'', u ''http://x.test''],
          dict_row demo_header [u ''Short'']]"
    unfolding Let_def has_name_iff [symmetric] by (simp add: dict_reader_def demo_rows)
  from read_ai_tools_contract [of demo_fs "u ''nameless.csv''", THEN conjunct2, rule_format, OF 3]
  have c: "read_ai_tools demo_fs (u ''nameless.csv'') = Inl ValueError"
    unfolding Let_def has_name_iff [symmetric] by (simp add: dict_reader_def demo_rows)
  from a b c show ?thesis by simp
qed

section \<open>The card renderer: facts\<close>

lemma load_fonts_default:
  "\<not> custom_font_loads E \<Longrightarrow> load_fonts E = (DefaultFont, DefaultFont, DefaultFont)"
  by (auto simp: custom_font_loads_def load_fonts_def truetype_def split: option.splits)

text \<open>
  What holds of the renderer: where the library has \<open>ImageDraw.textsize\<close> and each of
  the three texts is in Latin-1 or the custom font is in use, \<open>generate_image\<close> writes
  an image of 1200 by 675 pixels to a writable path, in the default font when the custom
  font is not in use.
\<close>

lemma generate_image_latin1:
  assumes "dict_get tool (u ''name'') [] = Some name"
    and "dict_get tool (u ''tagline'') [] = Some tagline"
    and "dict_get tool (u ''url'') [] = Some url"
    and "writable E output_path"
    and "has_textsize E"
    and "custom_font_loads E \<or> (latin1 name \<and> latin1 tagline \<and> latin1 url)"
  shows "\<exists>img. generate_image E tool output_path = Inr (output_path, img) \<and>
     img_width img = 1200 \<and> img_height img = 675 \<and>
     map content (drawn img) = [name, tagline, url] \<and>
     (\<not> custom_font_loads E \<longrightarrow>
        map drawn_font (drawn img) = [DefaultFont, DefaultFont, DefaultFont])"
proof (cases "custom_font_loads E")
  case True
  then have "load_fonts E =
      (TrueType (the (font_environ E (u ''AI_TOOL_FONT''))) 60,
       TrueType (the (font_environ E (u ''AI_TOOL_FONT''))) 36,
       TrueType (the (font_environ E (u ''AI_TOOL_FONT''))) 28)"
    by (auto simp: custom_font_loads_def load_fonts_def truetype_def split: option.splits)
  with True assms(1-5) show ?thesis
    by (simp add: generate_image_def center_draw_def Let_def split: prod.splits)
next
  case False
  with assms(6) have "latin1 name" "latin1 tagline" "latin1 url"
    by auto
  with False assms(1-5) load_fonts_default [of E] show ?thesis
    by (simp add: generate_image_def center_draw_def Let_def split: prod.splits)
qed

text \<open>
  Claim C9: for every tool record and writable output path, \<open>generate_image\<close> writes an
  image of exactly 1200 by 675 pixels, and no failure of the font loading raises: the
  three lines are then drawn in the default font. The code catches the failures of the
  font loading, but the fallback does not make the rendering succeed. With the custom
  font missing and the tagline in Japanese, the name is measured and drawn in the default
  font and the call \<open>draw.textsize\<close> for the tagline raises \<open>UnicodeEncodeError\<close>:
  no image is written. With a library that no longer has \<open>ImageDraw.textsize\<close>, the
  first call of \<open>center_draw\<close> raises \<open>AttributeError\<close> for every tool, font and
  path.
\<close>

theorem generate_image_default_font_fails:
  "\<not> custom_font_loads demo_render_env \<and> writable demo_render_env (u ''card.png'') \<and>
   generate_image demo_render_env
     (tool_of (u ''Foo'') japanese_tagline (u ''A tool.'') (u ''http://x.test'')) (u ''card.png'') =
     Inl UnicodeEncodeError \<and>
   generate_image (E\<lparr>has_textsize := False\<rparr>) tool output_path = Inl AttributeError"
proof -
  have 1: "\<not> custom_font_loads demo_render_env" "writable demo_render_env (u ''card.png'')"
    by (simp_all add: custom_font_loads_def demo_render_env_def)
  have 2: "has_textsize demo_render_env"
    by (simp add: demo_render_env_def)
  have 3: "latin1 (u ''Foo'')" "\<not> latin1 japanese_tagline"
    by (simp_all add: latin1_def japanese_tagline_def u_def)
  have "generate_image demo_render_env
     (tool_of (u ''Foo'') japanese_tagline (u ''A tool.'') (u ''http://x.test'')) (u ''card.png'') =
     Inl UnicodeEncodeError"
    using load_fonts_default [OF 1(1)] 2 3
    by (simp add: generate_image_def center_draw_def tool_of_get Let_def split: prod.splits)
  moreover have "generate_image (E\<lparr>has_textsize := False\<rparr>) tool output_path = Inl AttributeError"
    by (simp add: generate_image_def center_draw_def Let_def split: prod.splits)
  ultimately show ?thesis
    using 1 by simp
qed

section \<open>The publisher: facts\<close>

lemma credentials_all:
  "list_all truthy [environ E (u ''TWITTER_API_KEY''), environ E (u ''TWITTER_API_SECRET''),
     environ E (u ''TWITTER_ACCESS_TOKEN''), environ E (u ''TWITTER_ACCESS_SECRET'')] \<longleftrightarrow>
   (\<forall>k \<in> set credential_names. truthy (environ E k))"
  by (simp add: credential_names_def)

lemma demo_credentials_truthy: "\<forall>k \<in> set credential_names. truthy (demo_credentials k)"
  by (simp add: credential_names_def demo_credentials_def truthy_def u_def)

text \<open>
  Claim C2: with all four credentials present, an HTTP error status from either of the
  two network calls is recovered by \<open>post_to_x\<close>: a diagnostic is printed, no exception
  reaches the caller and the run ends successfully. For the media upload this fails:
  with the status 500 from the upload, \<open>post_to_x\<close> raises \<open>HTTPError\<close> and has
  printed nothing.
\<close>

theorem post_to_x_upload_error_counterexample:
  "post_to_x (demo_publish_env demo_credentials
       \<lparr>status_code = 500, body_text = u ''Internal Server Error'', json_body = None\<rparr>
       \<lparr>status_code = 201, body_text = u ''{}'', json_body = Some (JObject [])\<rparr>)
     (u ''hello'') (u ''card.png'') =
    \<lparr>result = Inl HTTPError, stdout = [], sent = [MediaUpload (u ''card.png'')]\<rparr>"
  using demo_credentials_truthy
  unfolding post_to_x_def Let_def credentials_all
  by (simp add: demo_publish_env_def raise_for_status_def)

text \<open>
  Claim C2, amended: with all four credentials present and not empty, once the media
  upload has given a media identifier, an HTTP error status (400 or more) from the post
  creation is recovered: \<open>post_to_x\<close> prints the diagnostic with the status code and
  the body and returns without raising, which ends the run successfully, as the call is
  the last step of \<open>main\<close>.
\<close>

theorem post_to_x_tweet_error:
  assumes "\<forall>k \<in> set credential_names. truthy (environ E k)"
    and "can_open E image_path"
    and "http_post E (MediaUpload image_path) = Inr upload_resp"
    and "raise_for_status upload_resp = Inr ()"
    and "media_id_of upload_resp = Inr media_id"
    and "http_post E (CreateTweet status_text media_id) = Inr resp"
    and "400 \<le> status_code resp"
  shows "post_to_x E status_text image_path =
    \<lparr>result = Inr (),
     stdout = [u ''Failed to post tweet: '' @ str_int (status_code resp) @ [32] @ body_text resp],
     sent = [MediaUpload image_path, CreateTweet status_text media_id]\<rparr>"
  using assms unfolding post_to_x_def Let_def credentials_all
  by simp

theorem post_to_x_tweet_error_witness:
  "post_to_x (demo_publish_env demo_credentials
       \<lparr>status_code = 200, body_text = u ''(media)'',
        json_body = Some (JObject [(u ''media_id_string'', JString (u ''7''))])\<rparr>
       \<lparr>status_code = 403, body_text = u ''Forbidden'', json_body = None\<rparr>)
     (u ''hello'') (u ''card.png'') =
    \<lparr>result = Inr (), stdout = [u ''Failed to post tweet: 403 Forbidden''],
     sent = [MediaUpload (u ''card.png''), CreateTweet (u ''hello'') (Some (JString (u ''7'')))]\<rparr>"
proof -
  let ?up = "\<lparr>status_code = 200, body_text = u ''(media)'',
        json_body = Some (JObject [(u ''media_id_string'', JString (u ''7''))])\<rparr>"
  let ?tw = "\<lparr>status_code = 403, body_text = u ''Forbidden'', json_body = None\<rparr>"
  let ?E = "demo_publish_env demo_credentials ?up ?tw"
  have 1: "\<forall>k \<in> set credential_names. truthy (environ ?E k)"
    using demo_credentials_truthy by (simp add: demo_publish_env_def)
  have 2: "can_open ?E (u ''card.png'')"
    by (simp add: demo_publish_env_def)
  have 3: "http_post ?E (MediaUpload (u ''card.png'')) = Inr ?up"
    by (simp add: demo_publish_env_def)
  have 4: "raise_for_status ?up = Inr ()"
    by (simp add: raise_for_status_def)
  have 5: "media_id_of ?up = Inr (Some (JString (u ''7'')))"
    by (simp add: media_id_of_def)
  have 6: "http_post ?E (CreateTweet (u ''hello'') (Some (JString (u ''7'')))) = Inr ?tw"
    by (simp add: demo_publish_env_def)
  have 7: "400 \<le> status_code ?tw"
    by simp
  have 8: "str_int 403 = u ''403''"
    by (simp add: str_int_def str_nat.simps u_def)
  from post_to_x_tweet_error [OF 1 2 3 4 5 6 7] show ?thesis
    by (simp add: 8) (simp add: u_def)
qed

text \<open>
  Claim C5: if any of the four credential variables is absent, \<open>post_to_x\<close> prints
  the message and the image path and returns, and it sends no request.
\<close>

theorem post_to_x_local_fallback:
  assumes "\<exists>k \<in> set credential_names. environ E k = None"
  shows "post_to_x E status_text image_path =
    \<lparr>result = Inr (),
     stdout = [u ''Missing Twitter API credentials. Printing instead:'', status_text,
               u ''(Image saved to '' @ image_path @ u '')''],
     sent = []\<rparr>"
proof -
  from assms obtain k where "k \<in> set credential_names" and "\<not> truthy (environ E k)"
    by (auto simp: truthy_def)
  then have "\<not> (\<forall>k \<in> set credential_names. truthy (environ E k))"
    by blast
  then show ?thesis
    unfolding post_to_x_def Let_def credentials_all [symmetric] by simp
qed

theorem post_to_x_local_fallback_witness:
  "post_to_x (demo_publish_env (demo_credentials (u ''TWITTER_ACCESS_SECRET'' := None))
       \<lparr>status_code = 200, body_text = [], json_body = None\<rparr>
       \<lparr>status_code = 200, body_text = [], json_body = None\<rparr>) (u ''hello'') (u ''card.png'') =
    \<lparr>result = Inr (),
     stdout = [u ''Missing Twitter API credentials. Printing instead:'', u ''hello'',
               u ''(Image saved to card.png)''],
     sent = []\<rparr>"
proof -
  have "\<exists>k \<in> set credential_names.
      environ (demo_publish_env (demo_credentials (u ''TWITTER_ACCESS_SECRET'' := None))
       \<lparr>status_code = 200, body_text = [], json_body = None\<rparr>
       \<lparr>status_code = 200, body_text = [], json_body = None\<rparr>) k = None"
    by (simp add: credential_names_def demo_publish_env_def)
  from post_to_x_local_fallback [OF this, of "u ''hello''" "u ''card.png''"] show ?thesis
    by (simp add: u_def)
qed

text \<open>
  Claim C6: with all four credentials present, a non-success HTTP status from the media
  upload makes \<open>post_to_x\<close> raise, and the post creation is never attempted after it.
  \<open>raise_for_status\<close> raises for the error codes only: with the status 300 and a JSON
  object as the body of the upload's response, \<open>post_to_x\<close> goes on, sends the post
  creation with the media identifier \<open>None\<close> and returns.
\<close>

theorem post_to_x_upload_redirect_counterexample:
  "\<not> success_status 300 \<and>
   post_to_x (demo_publish_env demo_credentials
       \<lparr>status_code = 300, body_text = u ''{}'', json_body = Some (JObject [])\<rparr>
       \<lparr>status_code = 201, body_text = u ''{}'', json_body = Some (JObject [])\<rparr>)
     (u ''hello'') (u ''card.png'') =
    \<lparr>result = Inr (), stdout = [u ''Posted tweet successfully: {}''],
     sent = [MediaUpload (u ''card.png''), CreateTweet (u ''hello'') None]\<rparr>"
  using demo_credentials_truthy
  unfolding post_to_x_def Let_def credentials_all
  by (simp add: demo_publish_env_def raise_for_status_def media_id_of_def success_status_def)
    (simp add: u_def)

text \<open>
  Claim C6, amended: with all four credentials present and not empty, an HTTP error
  status (400 to 599) from the media upload makes \<open>post_to_x\<close> raise \<open>HTTPError\<close>,
  and the upload is the only request sent: the post creation is not attempted.
\<close>

theorem post_to_x_upload_error:
  assumes "\<forall>k \<in> set credential_names. truthy (environ E k)"
    and "can_open E image_path"
    and "http_post E (MediaUpload image_path) = Inr upload_resp"
    and "400 \<le> status_code upload_resp" and "status_code upload_resp < 600"
  shows "post_to_x E status_text image_path =
    \<lparr>result = Inl HTTPError, stdout = [], sent = [MediaUpload image_path]\<rparr>"
  using assms unfolding post_to_x_def Let_def credentials_all
  by (simp add: raise_for_status_def)

theorem post_to_x_upload_error_witness:
  "post_to_x (demo_publish_env demo_credentials
       \<lparr>status_code = 503, body_text = u ''Service Unavailable'', json_body = None\<rparr>
       \<lparr>status_code = 201, body_text = u ''{}'', json_body = Some (JObject [])\<rparr>)
     (u ''hello'') (u ''card.png'') =
    \<lparr>result = Inl HTTPError, stdout = [], sent = [MediaUpload (u ''card.png'')]\<rparr>"
  using post_to_x_upload_error [of "demo_publish_env demo_credentials
       \<lparr>status_code = 503, body_text = u ''Service Unavailable'', json_body = None\<rparr>
       \<lparr>status_code = 201, body_text = u ''{}'', json_body = Some (JObject [])\<rparr>"
       "u ''card.png''" "\<lparr>status_code = 503, body_text = u ''Service Unavailable'', json_body = None\<rparr>"
       "u ''hello''"]
    demo_credentials_truthy
  by (simp add: demo_publish_env_def)

end
